theory Spec2Isabelle
  imports Complex_Main
begin

section \<open>Data model of \<open>django/contrib/gis/db/models/fields/__init__.py\<close>\<close>

text \<open>
  The module defines \<open>GeometryField\<close> and seven subclasses. Its methods turn lookup and
  save values into SQL fragments and parameters. The geometry library, the \<open>Distance\<close>
  class and the spatial backend are imported from other modules; what the methods use of
  them is collected in the record \<open>backend\<close> below, so every theorem holds for any
  backend.

  Geometry objects are mutable (\<open>get_geometry\<close> assigns \<open>geom.srid\<close>), so they live in
  an object store and Python values refer to them by address.
\<close>

datatype error =
    TypeError
  | ValueError
  | IndexError
  | GeometryException
  | Exception
  | OtherError string

text \<open>A backend geometry object: the attribute \<open>srid\<close> (\<open>None\<close> or an integer) and its data.\<close>

record geometry =
  srid :: "int option"
  wkt :: string

type_synonym ref = nat

text \<open>
  Python values that reach the methods. \<open>'d\<close> is the type of \<open>Distance\<close> objects.
  Numbers are only passed through, never computed with.
\<close>

datatype 'd pyval =
    PNone
  | PNum rat
  | PStr string
  | PDistance 'd
  | PGeometry ref
  | PAdaptor ref
  | PTuple "'d pyval list"
  | PList "'d pyval list"

text \<open>The object store: every address holds a geometry, \<open>nxt\<close> is the next unused address.\<close>

record store =
  objs :: "ref \<Rightarrow> geometry"
  nxt :: ref

text \<open>The instance attributes that \<open>GeometryField.__init__\<close> sets.\<close>

record field =
  f_index :: bool
  f_srid :: int
  f_unit :: rat
  f_unit_name :: string
  f_spheroid :: string
  f_dim :: nat

text \<open>
  What the module imports: \<open>SpatialBackend\<close> (\<open>postgis\<close>, \<open>gis_terms\<close>,
  \<open>distance_functions\<close>, \<open>limited_where\<close>, the \<open>Geometry\<close> constructor, which may
  raise), \<open>gqn\<close>, the \<open>Distance\<close> class (\<open>unit_attname\<close>, attribute access, \<open>.m\<close>), and
  \<open>get_placeholder\<close> inherited from \<open>SpatialBackend.Field\<close>.
\<close>

record 'd backend =
  postgis :: bool
  gis_terms :: "string list"
  distance_functions :: "string list"
  limited_where :: "string list"
  Geometry :: "string \<Rightarrow> error + geometry"
  gqn :: "'d pyval \<Rightarrow> 'd pyval"
  unit_attname :: "string \<Rightarrow> error + string"
  Distance_getattr :: "'d \<Rightarrow> string \<Rightarrow> error + 'd pyval"
  Distance_m :: "'d \<Rightarrow> 'd pyval"
  get_placeholder :: "field \<Rightarrow> geometry \<Rightarrow> 'd pyval"

section \<open>\<open>GeometryField\<close>\<close>

definition geodetic_units :: "string list" where
  "geodetic_units = [''Decimal Degree'', ''degree'']"

definition geodetic :: "field \<Rightarrow> bool" where
  "geodetic f = (f_unit_name f \<in> set geodetic_units)"

text \<open>
  \<open>get_srid\<close>: the field's SRID when the geometry has none, or has \<open>-1\<close> while the field
  has not; the geometry's own otherwise.
\<close>

definition get_srid :: "field \<Rightarrow> geometry \<Rightarrow> int option" where
  "get_srid f geom =
     (if srid geom = None \<or> (srid geom = Some (- 1) \<and> f_srid f \<noteq> - 1)
      then Some (f_srid f)
      else srid geom)"

text \<open>
  \<open>get_distance\<close>, first statement: one element gives \<open>(dist, None)\<close>; otherwise the
  sequence is unpacked into two names, which raises \<open>ValueError\<close> unless it has exactly
  two elements.
\<close>

definition unpack_dist_val :: "'d pyval list \<Rightarrow> error + ('d pyval \<times> 'd pyval)" where
  "unpack_dist_val dist_val =
     (if length dist_val = 1 then Inr (dist_val ! 0, PNone)
      else (case dist_val of
              [dst, opt] \<Rightarrow> Inr (dst, opt)
            | _ \<Rightarrow> Inl ValueError))"

text \<open>
  The branch on \<open>isinstance(dist, Distance)\<close> that computes \<open>dist_param\<close>. The attribute
  name comes from \<open>Distance.unit_attname\<close>, which may raise, as may the attribute access.
\<close>

definition dist_param_of :: "'d backend \<Rightarrow> field \<Rightarrow> 'd pyval \<Rightarrow> string \<Rightarrow> error + 'd pyval" where
  "dist_param_of be f dst lookup_type =
     (case dst of
        PDistance d \<Rightarrow>
          (if geodetic f then
             (if postgis be \<and> lookup_type = ''dwithin'' then Inl TypeError
              else Inr (Distance_m be d))
           else
             (case unit_attname be (f_unit_name f) of
                Inl e \<Rightarrow> Inl e
              | Inr att \<Rightarrow> Distance_getattr be d att))
      | _ \<Rightarrow> Inr dst)"

definition get_distance :: "'d backend \<Rightarrow> field \<Rightarrow> 'd pyval list \<Rightarrow> string \<Rightarrow> error + 'd pyval list" where
  "get_distance be f dist_val lookup_type =
     (case unpack_dist_val dist_val of
        Inl e \<Rightarrow> Inl e
      | Inr (dst, opt) \<Rightarrow>
          (case dist_param_of be f dst lookup_type of
             Inl e \<Rightarrow> Inl e
           | Inr dist_param \<Rightarrow>
               (if postgis be \<and> geodetic f \<and> lookup_type \<noteq> ''dwithin''
                   \<and> opt = PStr ''spheroid''
                then Inr [gqn be (PStr (f_spheroid f)), dist_param]
                else Inr [dist_param])))"

text \<open>
  \<open>get_geometry\<close>. \<open>value[0]\<close> raises \<open>IndexError\<close> on an empty tuple or list.
\<close>

definition first_of_value :: "'d pyval \<Rightarrow> error + 'd pyval" where
  "first_of_value v =
     (case v of
        PTuple xs \<Rightarrow> (case xs of [] \<Rightarrow> Inl IndexError | x # _ \<Rightarrow> Inr x)
      | PList xs \<Rightarrow> (case xs of [] \<Rightarrow> Inl IndexError | x # _ \<Rightarrow> Inr x)
      | _ \<Rightarrow> Inr v)"

text \<open>A new object is stored at the next unused address.\<close>

definition alloc :: "store \<Rightarrow> geometry \<Rightarrow> ref \<times> store" where
  "alloc st g = (nxt st, \<lparr>objs = (objs st)(nxt st := g), nxt = Suc (nxt st)\<rparr>)"

text \<open>
  The \<open>isinstance\<close> chain: a geometry is kept, a string is given to the backend's
  constructor (\<open>GeometryException\<close> becomes \<open>ValueError\<close>, any other exception
  propagates), anything else raises \<open>TypeError\<close>.
\<close>

definition to_geometry :: "'d backend \<Rightarrow> 'd pyval \<Rightarrow> store \<Rightarrow> error + (ref \<times> store)" where
  "to_geometry be geom st =
     (case geom of
        PGeometry a \<Rightarrow> Inr (a, st)
      | PStr s \<Rightarrow>
          (case Geometry be s of
             Inl GeometryException \<Rightarrow> Inl ValueError
           | Inl e \<Rightarrow> Inl e
           | Inr g \<Rightarrow> Inr (alloc st g))
      | _ \<Rightarrow> Inl TypeError)"

text \<open>The assignment \<open>geom.srid = self.get_srid(geom)\<close> on the object at address \<open>a\<close>.\<close>

definition assign_srid :: "field \<Rightarrow> ref \<Rightarrow> store \<Rightarrow> store" where
  "assign_srid f a st =
     st\<lparr>objs := (objs st)(a := (objs st a)\<lparr>srid := get_srid f (objs st a)\<rparr>)\<rparr>"

definition get_geometry :: "'d backend \<Rightarrow> field \<Rightarrow> 'd pyval \<Rightarrow> store \<Rightarrow> error + (ref \<times> store)" where
  "get_geometry be f v st =
     (case first_of_value v of
        Inl e \<Rightarrow> Inl e
      | Inr geom \<Rightarrow>
          (case to_geometry be geom st of
             Inl e \<Rightarrow> Inl e
           | Inr (a, st') \<Rightarrow> Inr (a, assign_srid f a st')))"

text \<open>\<open>value[1:]\<close> of a tuple or list.\<close>

definition rest_of_value :: "'d pyval \<Rightarrow> 'd pyval list option" where
  "rest_of_value v =
     (case v of PTuple xs \<Rightarrow> Some (tl xs) | PList xs \<Rightarrow> Some (tl xs) | _ \<Rightarrow> None)"

text \<open>
  \<open>get_db_prep_lookup\<close> returns the pair \<open>(where, params)\<close>, and the store after the
  call. When it raises, the store is not reported.
\<close>

definition get_db_prep_lookup ::
  "'d backend \<Rightarrow> field \<Rightarrow> string \<Rightarrow> 'd pyval \<Rightarrow> store
     \<Rightarrow> error + (('d pyval list \<times> 'd pyval list) \<times> store)" where
  "get_db_prep_lookup be f lookup_type v st =
     (if lookup_type \<in> set (gis_terms be) then
        (if lookup_type = ''isnull'' then Inr (([], []), st)
         else
           (case get_geometry be f v st of
              Inl e \<Rightarrow> Inl e
            | Inr (a, st') \<Rightarrow>
                (let wh = [get_placeholder be f (objs st' a)];
                     params = [PAdaptor a]
                 in (case rest_of_value v of
                       Some rest \<Rightarrow>
                         (if lookup_type \<in> set (distance_functions be) then
                            (case get_distance be f rest lookup_type of
                               Inl e \<Rightarrow> Inl e
                             | Inr ds \<Rightarrow> Inr ((wh @ ds, params), st'))
                          else if lookup_type \<in> set (limited_where be) then
                            Inr ((wh, params), st')
                          else Inr ((wh @ map (gqn be) rest, params), st'))
                     | None \<Rightarrow> Inr ((wh, params), st')))))
      else Inl TypeError)"

definition get_db_prep_save :: "'d pyval \<Rightarrow> error + 'd pyval" where
  "get_db_prep_save v =
     (case v of
        PGeometry a \<Rightarrow> Inr (PAdaptor a)
      | PNone \<Rightarrow> Inr PNone
      | _ \<Rightarrow> Inl TypeError)"

section \<open>The class hierarchy\<close>

text \<open>
  The classes the module defines. \<open>GeometryField\<close> derives from \<open>SpatialBackend.Field\<close>,
  which is outside the module; the other seven derive from \<open>GeometryField\<close>.
\<close>

datatype field_class =
    GeometryField
  | PointField
  | LineStringField
  | PolygonField
  | MultiPointField
  | MultiLineStringField
  | MultiPolygonField
  | GeometryCollectionField

fun base :: "field_class \<Rightarrow> field_class option" where
  "base GeometryField = None"
| "base c = Some GeometryField"

text \<open>The names bound in each class body, in source order.\<close>

fun class_body :: "field_class \<Rightarrow> string list" where
  "class_body GeometryField =
     [''_geom'', ''geodetic_units'', ''__init__'', ''geodetic'', ''get_distance'',
      ''get_geometry'', ''get_srid'', ''contribute_to_class'', ''get_db_prep_lookup'',
      ''get_db_prep_save'', ''get_manipulator_field_objs'']"
| "class_body c = [''_geom'']"

text \<open>The value each class body gives to \<open>_geom\<close>.\<close>

fun geom_name :: "field_class \<Rightarrow> string" where
  "geom_name GeometryField = ''GEOMETRY''"
| "geom_name PointField = ''POINT''"
| "geom_name LineStringField = ''LINESTRING''"
| "geom_name PolygonField = ''POLYGON''"
| "geom_name MultiPointField = ''MULTIPOINT''"
| "geom_name MultiLineStringField = ''MULTILINESTRING''"
| "geom_name MultiPolygonField = ''MULTIPOLYGON''"
| "geom_name GeometryCollectionField = ''GEOMETRYCOLLECTION''"

text \<open>
  Attribute lookup on a class: the class itself, then its base inside the module.
  \<open>resolve c name\<close> is the class whose body provides \<open>name\<close> for instances of \<open>c\<close>.
\<close>

definition mro :: "field_class \<Rightarrow> field_class list" where
  "mro c = (case base c of None \<Rightarrow> [c] | Some b \<Rightarrow> [c, b])"

definition resolve :: "field_class \<Rightarrow> string \<Rightarrow> field_class option" where
  "resolve c name = find (\<lambda>k. name \<in> set (class_body k)) (mro c)"

text \<open>
  Method calls on an instance of class \<open>c\<close>: the function that runs is the one of the
  class that \<open>resolve\<close> finds. Only \<open>GeometryField\<close> has method bodies in this module.
\<close>

definition call_get_srid :: "field_class \<Rightarrow> (field \<Rightarrow> geometry \<Rightarrow> int option) option" where
  "call_get_srid c =
     (case resolve c ''get_srid'' of Some GeometryField \<Rightarrow> Some get_srid | _ \<Rightarrow> None)"

definition call_get_distance ::
  "field_class \<Rightarrow> ('d backend \<Rightarrow> field \<Rightarrow> 'd pyval list \<Rightarrow> string \<Rightarrow> error + 'd pyval list) option" where
  "call_get_distance c =
     (case resolve c ''get_distance'' of Some GeometryField \<Rightarrow> Some get_distance | _ \<Rightarrow> None)"

definition call_get_geometry ::
  "field_class \<Rightarrow> ('d backend \<Rightarrow> field \<Rightarrow> 'd pyval \<Rightarrow> store \<Rightarrow> error + (ref \<times> store)) option" where
  "call_get_geometry c =
     (case resolve c ''get_geometry'' of Some GeometryField \<Rightarrow> Some get_geometry | _ \<Rightarrow> None)"

definition call_get_db_prep_lookup ::
  "field_class \<Rightarrow> ('d backend \<Rightarrow> field \<Rightarrow> string \<Rightarrow> 'd pyval \<Rightarrow> store
     \<Rightarrow> error + (('d pyval list \<times> 'd pyval list) \<times> store)) option" where
  "call_get_db_prep_lookup c =
     (case resolve c ''get_db_prep_lookup'' of
        Some GeometryField \<Rightarrow> Some get_db_prep_lookup | _ \<Rightarrow> None)"

definition call_get_db_prep_save :: "field_class \<Rightarrow> ('d pyval \<Rightarrow> error + 'd pyval) option" where
  "call_get_db_prep_save c =
     (case resolve c ''get_db_prep_save'' of
        Some GeometryField \<Rightarrow> Some get_db_prep_save | _ \<Rightarrow> None)"

section \<open>A sample backend, fields and store\<close>

text \<open>
  One concrete instance of the imported parts, used to evaluate the methods: distances
  are rationals in metres, with attributes \<open>m\<close> and \<open>km\<close>; the constructor accepts one
  WKT string; \<open>gqn\<close> puts a string in single quotes.
\<close>

definition sample_backend :: "rat backend" where
  "sample_backend =
     \<lparr>postgis = True,
      gis_terms = [''isnull'', ''contains'', ''relate'', ''dwithin'', ''distance_lte''],
      distance_functions = [''dwithin'', ''distance_lte''],
      limited_where = [''relate''],
      Geometry = (\<lambda>s. if s = ''POINT(0 0)'' then Inr \<lparr>srid = None, wkt = s\<rparr>
                       else Inl GeometryException),
      gqn = (\<lambda>v. case v of PStr s \<Rightarrow> PStr (CHR 0x27 # s @ [CHR 0x27]) | _ \<Rightarrow> v),
      unit_attname = (\<lambda>n. if n = ''metre'' then Inr ''m''
                           else if n = ''kilometre'' then Inr ''km''
                           else Inl Exception),
      Distance_getattr = (\<lambda>d a. if a = ''m'' then Inr (PNum d)
                                 else if a = ''km'' then Inr (PNum (d / 1000))
                                 else Inl (OtherError ''AttributeError'')),
      Distance_m = PNum,
      get_placeholder = (\<lambda>f g. PStr ''%s'')\<rparr>"

definition sample_geodetic :: field where
  "sample_geodetic =
     \<lparr>f_index = True, f_srid = 4326, f_unit = 1 / 100, f_unit_name = ''degree'',
      f_spheroid = ''WGS 84'', f_dim = 2\<rparr>"

definition sample_planar :: field where
  "sample_planar =
     \<lparr>f_index = True, f_srid = 32140, f_unit = 1, f_unit_name = ''metre'',
      f_spheroid = ''GRS 1980'', f_dim = 2\<rparr>"

definition sample_store :: store where
  "sample_store = \<lparr>objs = (\<lambda>a. \<lparr>srid = None, wkt = ''POINT(1 1)''\<rparr>), nxt = 1\<rparr>"

section \<open>Theorems\<close>





text \<open>
  C2: a field is geodetic when its unit name is \<open>Decimal Degree\<close> or \<open>degree\<close>. On such a
  field a \<open>Distance\<close> object \<open>d\<close> is converted to metres (\<open>d.m\<close>), except that with the
  PostGIS backend and the lookup type \<open>dwithin\<close> \<open>get_distance\<close> raises \<open>TypeError\<close>.
\<close>

theorem get_distance_geodetic:
  assumes "f_unit_name f = ''Decimal Degree'' \<or> f_unit_name f = ''degree''"
  shows "geodetic f \<and>
         (postgis be \<and> lt = ''dwithin'' \<longrightarrow>
            get_distance be f [PDistance d] lt = Inl TypeError \<and>
            get_distance be f [PDistance d, opt] lt = Inl TypeError) \<and>
         (\<not> (postgis be \<and> lt = ''dwithin'') \<longrightarrow>
            dist_param_of be f (PDistance d) lt = Inr (Distance_m be d) \<and>
            get_distance be f [PDistance d] lt = Inr [Distance_m be d] \<and>
            (\<exists>pre. get_distance be f [PDistance d, opt] lt = Inr (pre @ [Distance_m be d])))"
proof -
  have g: "geodetic f"
    using assms by (auto simp: geodetic_def geodetic_units_def)
  have raise: "dist_param_of be f (PDistance d) lt = Inl TypeError"
    if "postgis be \<and> lt = ''dwithin''"
    using g that by (simp add: dist_param_of_def)
  have conv: "dist_param_of be f (PDistance d) lt = Inr (Distance_m be d)"
    if "\<not> (postgis be \<and> lt = ''dwithin'')"
    using g that by (auto simp: dist_param_of_def)
  show ?thesis
    using g raise conv by (auto simp: get_distance_def unpack_dist_val_def)
qed

theorem get_distance_geodetic_witness:
  "get_distance sample_backend sample_geodetic [PDistance 1000] ''dwithin'' = Inl TypeError \<and>
   get_distance sample_backend sample_geodetic [PDistance 1000] ''distance_lte''
     = Inr [PNum 1000]"
proof -
  have u: "f_unit_name sample_geodetic = ''Decimal Degree'' \<or>
           f_unit_name sample_geodetic = ''degree''"
    by (simp add: sample_geodetic_def)
  have p: "postgis sample_backend" "Distance_m sample_backend 1000 = PNum 1000"
    by (simp_all add: sample_backend_def)
  show ?thesis
    using p
      get_distance_geodetic [OF u, where be = sample_backend and lt = "''dwithin''"
        and d = 1000]
      get_distance_geodetic [OF u, where be = sample_backend and lt = "''distance_lte''"
        and d = 1000]
    by simp
qed







text \<open>
  C8: every geometry that \<open>get_geometry\<close> returns has an SRID that is not \<open>None\<close>: the
  \<open>srid\<close> attribute of the object is overwritten with the result of \<open>get_srid\<close> before it
  is returned. When the lookup value holds a backend geometry, that very object is
  returned, changed in place, and nothing else in the store changes. The geometry inside
  the parameters of \<open>get_db_prep_lookup\<close> therefore has an SRID as well.
\<close>

theorem get_geometry_srid_set:
  assumes "get_geometry be f v st = Inr (a, st')"
  shows "srid (objs st' a) \<noteq> None \<and>
         (\<exists>x st0. first_of_value v = Inr x \<and> to_geometry be x st = Inr (a, st0) \<and>
                  objs st' a = (objs st0 a)\<lparr>srid := get_srid f (objs st0 a)\<rparr>) \<and>
         (\<forall>b. first_of_value v = Inr (PGeometry b) \<longrightarrow>
              a = b \<and> objs st' b = (objs st b)\<lparr>srid := get_srid f (objs st b)\<rparr> \<and>
              (\<forall>c. c \<noteq> b \<longrightarrow> objs st' c = objs st c) \<and> nxt st' = nxt st) \<and>
         (\<forall>lt wh ps st2. lt \<noteq> ''isnull'' \<and>
              get_db_prep_lookup be f lt v st = Inr ((wh, ps), st2) \<longrightarrow>
              ps = [PAdaptor a] \<and> st2 = st' \<and> srid (objs st2 a) \<noteq> None)"
proof -
  have nn: "get_srid f g \<noteq> None" for g
    by (auto simp: get_srid_def)
  obtain x st0 where x: "first_of_value v = Inr x"
    and t: "to_geometry be x st = Inr (a, st0)"
    and s: "st' = assign_srid f a st0"
    using assms by (auto simp: get_geometry_def split: sum.splits)
  have o: "objs st' a = (objs st0 a)\<lparr>srid := get_srid f (objs st0 a)\<rparr>"
    using s by (simp add: assign_srid_def)
  have c1: "srid (objs st' a) \<noteq> None"
    using o nn by simp
  have c3: "a = b \<and> objs st' b = (objs st b)\<lparr>srid := get_srid f (objs st b)\<rparr> \<and>
      (\<forall>c. c \<noteq> b \<longrightarrow> objs st' c = objs st c) \<and> nxt st' = nxt st"
    if "first_of_value v = Inr (PGeometry b)" for b
    using that x t s by (auto simp: to_geometry_def assign_srid_def)
  have c4: "ps = [PAdaptor a] \<and> st2 = st' \<and> srid (objs st2 a) \<noteq> None"
    if "lt \<noteq> ''isnull'' \<and> get_db_prep_lookup be f lt v st = Inr ((wh, ps), st2)"
    for lt wh ps st2
    using that assms c1
    by (auto simp: get_db_prep_lookup_def Let_def split: if_splits option.splits sum.splits)
  show ?thesis
    using c1 x t o c3 c4 by blast
qed

theorem get_geometry_srid_set_witness:
  "get_geometry sample_backend sample_geodetic (PGeometry 0) sample_store
     = Inr (0, assign_srid sample_geodetic 0 sample_store) \<and>
   srid (objs (assign_srid sample_geodetic 0 sample_store) 0) = Some 4326 \<and>
   srid (objs sample_store 0) = None"
proof -
  have g: "get_geometry sample_backend sample_geodetic (PGeometry 0) sample_store
     = Inr (0, assign_srid sample_geodetic 0 sample_store)"
    by (simp add: get_geometry_def first_of_value_def to_geometry_def)
  have f: "first_of_value (PGeometry 0 :: rat pyval) = Inr (PGeometry 0)"
    by (simp add: first_of_value_def)
  have s: "get_srid sample_geodetic (objs sample_store 0) = Some 4326"
    "srid (objs sample_store 0) = None"
    by (simp_all add: get_srid_def sample_geodetic_def sample_store_def)
  show ?thesis
    using g f s get_geometry_srid_set [OF g] by simp
qed

text \<open>
  C9: \<open>get_db_prep_save\<close> returns the adaptor wrapping the value exactly when the value is
  a backend geometry, returns \<open>None\<close> exactly when the value is \<open>None\<close>, and raises
  \<open>TypeError\<close> for every other value; in particular for every string.
\<close>

theorem get_db_prep_save_cases:
  "(get_db_prep_save v = Inr (PAdaptor a) \<longleftrightarrow> v = PGeometry a) \<and>
   (get_db_prep_save v = Inr PNone \<longleftrightarrow> v = PNone) \<and>
   (get_db_prep_save v = Inl TypeError \<longleftrightarrow> (\<forall>b. v \<noteq> PGeometry b) \<and> v \<noteq> PNone) \<and>
   (\<forall>e. get_db_prep_save v = Inl e \<longrightarrow> e = TypeError) \<and>
   get_db_prep_save (PStr s) = Inl TypeError"
  by (cases v) (auto simp: get_db_prep_save_def)

theorem get_db_prep_save_cases_witness:
  "get_db_prep_save (PGeometry 3 :: rat pyval) = Inr (PAdaptor 3) \<and>
   get_db_prep_save (PNone :: rat pyval) = Inr PNone \<and>
   get_db_prep_save (PStr ''POINT(0 0)'' :: rat pyval) = Inl TypeError"
  using get_db_prep_save_cases [where v = "PGeometry 3 :: rat pyval" and a = 3]
    get_db_prep_save_cases [where v = "PNone :: rat pyval"]
    get_db_prep_save_cases [where v = "PStr ''POINT(0 0)'' :: rat pyval" and s = "''POINT(0 0)''"]
  by blast

text \<open>
  C10: \<open>get_db_prep_lookup\<close> raises \<open>TypeError\<close> for every lookup type that is not among
  the backend's \<open>gis_terms\<close>. For the lookup type \<open>isnull\<close> (when the backend lists it) it
  returns the pair of empty lists for every value, and the store is left as it was: no
  geometry is built or changed.
\<close>

theorem get_db_prep_lookup_invalid_isnull:
  "(lt \<notin> set (gis_terms be) \<longrightarrow> get_db_prep_lookup be f lt v st = Inl TypeError) \<and>
   (''isnull'' \<in> set (gis_terms be) \<longrightarrow>
      get_db_prep_lookup be f ''isnull'' v st = Inr (([], []), st))"
  by (simp add: get_db_prep_lookup_def)

theorem get_db_prep_lookup_invalid_isnull_witness:
  "get_db_prep_lookup sample_backend sample_planar ''exact'' (PGeometry 0) sample_store
     = Inl TypeError \<and>
   get_db_prep_lookup sample_backend sample_planar ''isnull'' (PNum 1) sample_store
     = Inr (([], []), sample_store)"
proof -
  have a: "''exact'' \<notin> set (gis_terms sample_backend)"
    and b: "''isnull'' \<in> set (gis_terms sample_backend)"
    by (simp_all add: sample_backend_def)
  show ?thesis
    using a b
      get_db_prep_lookup_invalid_isnull [where be = sample_backend and lt = "''exact''"
        and f = sample_planar and v = "PGeometry 0" and st = sample_store]
      get_db_prep_lookup_invalid_isnull [where be = sample_backend and lt = "''exact''"
        and f = sample_planar and v = "PNum 1" and st = sample_store]
    by simp
qed




text \<open>Every class other than \<open>GeometryField\<close> derives from it.\<close>

lemma base_GeometryField_iff: "base c = Some GeometryField \<longleftrightarrow> c \<noteq> GeometryField"
  by (cases c) simp_all

lemma resolve_subclass:
  assumes "c \<noteq> GeometryField"
  shows "resolve c ''_geom'' = Some c"
    and "resolve c ''get_distance'' = Some GeometryField"
    and "resolve c ''get_geometry'' = Some GeometryField"
    and "resolve c ''get_srid'' = Some GeometryField"
    and "resolve c ''get_db_prep_lookup'' = Some GeometryField"
    and "resolve c ''get_db_prep_save'' = Some GeometryField"
  using assms by (cases c; simp add: resolve_def mro_def)+

lemma resolve_GeometryField:
  "resolve GeometryField ''get_distance'' = Some GeometryField"
  "resolve GeometryField ''get_geometry'' = Some GeometryField"
  "resolve GeometryField ''get_srid'' = Some GeometryField"
  "resolve GeometryField ''get_db_prep_lookup'' = Some GeometryField"
  "resolve GeometryField ''get_db_prep_save'' = Some GeometryField"
  by (simp_all add: resolve_def mro_def)

text \<open>
  C7: \<open>GeometryField\<close> has exactly seven subclasses, \<open>PointField\<close>, \<open>LineStringField\<close>,
  \<open>PolygonField\<close>, \<open>MultiPointField\<close>, \<open>MultiLineStringField\<close>, \<open>MultiPolygonField\<close> and
  \<open>GeometryCollectionField\<close>. The body of each binds \<open>_geom\<close> and nothing else, so
  \<open>get_distance\<close>, \<open>get_geometry\<close>, \<open>get_srid\<close>, \<open>get_db_prep_lookup\<close> and
  \<open>get_db_prep_save\<close> of each subclass resolve to \<open>GeometryField\<close>'s and are the same
  functions.
\<close>

theorem subclasses_inherit:
  "{c. base c = Some GeometryField}
     = {PointField, LineStringField, PolygonField, MultiPointField, MultiLineStringField,
        MultiPolygonField, GeometryCollectionField} \<and>
   card {c. base c = Some GeometryField} = 7 \<and>
   (\<forall>c. base c = Some GeometryField \<longrightarrow>
      class_body c = [''_geom''] \<and> resolve c ''_geom'' = Some c \<and>
      call_get_distance c = call_get_distance GeometryField \<and>
      call_get_distance c
        = Some (get_distance :: 'd backend \<Rightarrow> field \<Rightarrow> 'd pyval list \<Rightarrow> string
                                  \<Rightarrow> error + 'd pyval list) \<and>
      call_get_geometry c = call_get_geometry GeometryField \<and>
      call_get_geometry c
        = Some (get_geometry :: 'd backend \<Rightarrow> field \<Rightarrow> 'd pyval \<Rightarrow> store
                                  \<Rightarrow> error + (ref \<times> store)) \<and>
      call_get_srid c = call_get_srid GeometryField \<and>
      call_get_srid c = Some get_srid \<and>
      call_get_db_prep_lookup c = call_get_db_prep_lookup GeometryField \<and>
      call_get_db_prep_lookup c
        = Some (get_db_prep_lookup :: 'd backend \<Rightarrow> field \<Rightarrow> string \<Rightarrow> 'd pyval \<Rightarrow> store
                  \<Rightarrow> error + (('d pyval list \<times> 'd pyval list) \<times> store)) \<and>
      call_get_db_prep_save c = call_get_db_prep_save GeometryField \<and>
      call_get_db_prep_save c = Some (get_db_prep_save :: 'd pyval \<Rightarrow> error + 'd pyval))"
proof -
  have s: "{c. base c = Some GeometryField}
     = {PointField, LineStringField, PolygonField, MultiPointField, MultiLineStringField,
        MultiPolygonField, GeometryCollectionField}" (is "?L = ?R")
  proof
    show "?L \<subseteq> ?R"
    proof
      fix c assume "c \<in> ?L"
      then show "c \<in> ?R" by (cases c) simp_all
    qed
    show "?R \<subseteq> ?L" by simp
  qed
  have k: "card {c. base c = Some GeometryField} = 7"
    unfolding s by simp
  have b: "class_body c = [''_geom'']" if "c \<noteq> GeometryField" for c
    using that by (cases c) simp_all
  show ?thesis
    using s k b
    by (simp add: base_GeometryField_iff resolve_subclass resolve_GeometryField
        call_get_distance_def call_get_geometry_def call_get_srid_def
        call_get_db_prep_lookup_def call_get_db_prep_save_def)
qed

theorem subclasses_inherit_witness:
  "base PointField = Some GeometryField \<and> class_body PointField = [''_geom''] \<and>
   call_get_srid PointField = Some get_srid \<and>
   call_get_db_prep_save MultiPolygonField
     = Some (get_db_prep_save :: rat pyval \<Rightarrow> error + rat pyval)"
proof -
  have p: "base PointField = Some GeometryField" "base MultiPolygonField = Some GeometryField"
    by simp_all
  show ?thesis
    using p subclasses_inherit [where 'd = rat] by blast
qed

end
